theory Spec2Isabelle
  imports Main "HOL-Library.Word"
begin

unbundle bit_operations_syntax

section \<open>PayAgentHook: per-pool fee governance and swap analytics\<close>

text \<open>
  A shallow embedding of \<^verbatim>\<open>contracts/src/PayAgentHook.sol\<close>. Solidity value types are
  machine words: \<^verbatim>\<open>address\<close> is 160 bits, \<^verbatim>\<open>uint24\<close> 24 bits, \<^verbatim>\<open>uint256\<close> and
  \<^verbatim>\<open>int256\<close> 256 bits, \<^verbatim>\<open>int128\<close> 128 bits (signed values are read with \<open>sint\<close>).
  A Solidity \<^verbatim>\<open>mapping\<close> is a total function whose default value is zero.
  A call either reverts, which is the value \<open>Inl e\<close> and leaves the storage as it was,
  or returns \<open>Inr\<close> with its result and the new storage.
\<close>

subsection \<open>Value types of the pool engine\<close>

type_synonym address = "160 word"
type_synonym pool_id = "256 word"
type_synonym uint24 = "24 word"
type_synonym uint256 = "256 word"
type_synonym int256 = "256 word"
type_synonym int128 = "128 word"
type_synonym bytes = "8 word list"

record pool_key =
  currency0 :: address
  currency1 :: address
  fee :: uint24
  tickSpacing :: "24 word"
  hooks :: address

record swap_params =
  zeroForOne :: bool
  amountSpecified :: int256
  sqrtPriceLimitX96 :: "160 word"

record balance_delta =
  amount0 :: int128
  amount1 :: int128

datatype selector = AfterInitializeSelector | BeforeSwapSelector | AfterSwapSelector

subsection \<open>Errors and events\<close>

text \<open>
  The custom errors of the contract, \<open>NotDynamicFee\<close> of the inherited base hook, the
  compiler's \<open>Panic\<close> (code 17, that is 0x11, for an arithmetic overflow in checked code),
  and the revert without data of the compiler's ABI decoder.
\<close>

datatype error =
    Unauthorized address
  | FeeTooHigh uint24
  | FeeChangeTimelocked pool_id uint256
  | PoolAlreadyRegistered pool_id
  | NoPendingAdmin pool_id
  | NotPendingAdmin address
  | ZeroAddress
  | NotDynamicFee
  | Panic nat
  | AbiDecodeRevert

datatype event =
    PoolRegistered pool_id address
  | PoolStrategyUpdated pool_id address
  | PoolAdminTransferProposed pool_id address address
  | PoolAdminTransferred pool_id address address
  | SwapProcessed pool_id uint256 uint256
  | VolumeUpdated pool_id uint256 uint256
  | PoolFeeUpdated pool_id uint24
  | PoolFeeQueued pool_id uint24 uint256

subsection \<open>Constants and storage\<close>

definition MAX_FEE :: uint24 where
  "MAX_FEE = 10000"

definition DEFAULT_FEE :: uint24 where
  "DEFAULT_FEE = 3000"

definition TIMELOCK_BLOCKS :: uint256 where
  "TIMELOCK_BLOCKS = 150"

text \<open>Flags of the pool engine's fee library (\<^verbatim>\<open>LPFeeLibrary\<close>).\<close>

definition DYNAMIC_FEE_FLAG :: uint24 where
  "DYNAMIC_FEE_FLAG = 0x800000"

definition OVERRIDE_FEE_FLAG :: uint24 where
  "OVERRIDE_FEE_FLAG = 0x400000"

record hook_state =
  poolAdmin :: "pool_id \<Rightarrow> address"
  pendingPoolAdmin :: "pool_id \<Rightarrow> address"
  poolStrategy :: "pool_id \<Rightarrow> address"
  swapCount :: "pool_id \<Rightarrow> uint256"
  totalVolume :: "pool_id \<Rightarrow> uint256"
  poolFeeOverride :: "pool_id \<Rightarrow> uint24"
  pendingFee :: "pool_id \<Rightarrow> uint24"
  feeReadyBlock :: "pool_id \<Rightarrow> uint256"
  events :: "event list"

text \<open>The storage of a freshly deployed contract: every slot is zero, nothing was emitted.\<close>

definition init_state :: hook_state where
  "init_state = \<lparr>poolAdmin = (\<lambda>_. 0), pendingPoolAdmin = (\<lambda>_. 0), poolStrategy = (\<lambda>_. 0),
     swapCount = (\<lambda>_. 0), totalVolume = (\<lambda>_. 0), poolFeeOverride = (\<lambda>_. 0),
     pendingFee = (\<lambda>_. 0), feeReadyBlock = (\<lambda>_. 0), events = []\<rparr>"

subsection \<open>The external fee strategy\<close>

text \<open>
  \<^verbatim>\<open>IFeeStrategy.getFee\<close> is a \<^verbatim>\<open>view\<close> function at an address the hook does not
  control (\<^verbatim>\<open>setPoolStrategy\<close> stores any address). The hook calls it with 100000 gas
  inside \<^verbatim>\<open>try ... returns (uint24 strategyFee) { ... } catch {}\<close>. Three things can
  happen:
  \<^item> the call itself fails (the callee reverts, or uses up the gas): \<open>Failed\<close>, which the
    \<^verbatim>\<open>catch\<close> clause takes;
  \<^item> the call succeeds with fewer than 32 bytes of return data, as every call to an address
    without code does: \<open>ShortReturn\<close>;
  \<^item> the call succeeds and the first 32-byte word of its return data is \<open>w\<close>:
    \<open>Returned w\<close>.
  After a successful call the hook decodes the return data as a \<^verbatim>\<open>uint24\<close>. The decoder
  runs in the hook, not in the callee, so \<^verbatim>\<open>catch\<close> does not take its failure: short
  data, or a word that is not below \<open>2 ^ 24\<close>, reverts the hook without data.
  The contracts deployed on the chain are a parameter \<open>ext\<close> of the model: \<open>ext a\<close> is
  what a call to address \<open>a\<close> gives. The hash \<^verbatim>\<open>key.toId()\<close> of the engine is the
  parameter \<open>toId\<close>.
\<close>

datatype call_result = Returned "256 word" | ShortReturn | Failed

type_synonym strategies = "address \<Rightarrow> pool_id \<Rightarrow> pool_key \<Rightarrow> swap_params \<Rightarrow> call_result"

definition decode_uint24 :: "256 word \<Rightarrow> error + uint24" where
  "decode_uint24 w = (if unat w < 2 ^ 24 then Inr (ucast w) else Inl AbiDecodeRevert)"

text \<open>\<^verbatim>\<open>FixedFeeStrategy\<close>, the strategy shipped with the contract.\<close>

definition FixedFeeStrategy_getFee :: "uint24 \<Rightarrow> pool_id \<Rightarrow> pool_key \<Rightarrow> swap_params \<Rightarrow> call_result" where
  "FixedFeeStrategy_getFee fixedFee poolId key params = Returned (ucast fixedFee)"

subsection \<open>Checked arithmetic\<close>

text \<open>
  Outside an \<^verbatim>\<open>unchecked\<close> block Solidity 0.8 reverts with \<open>Panic(0x11)\<close> when an
  addition leaves the range of \<^verbatim>\<open>uint256\<close> or a negation that of \<^verbatim>\<open>int256\<close>.
\<close>

definition checked_add :: "uint256 \<Rightarrow> uint256 \<Rightarrow> error + uint256" where
  "checked_add a b = (if unat a + unat b < 2 ^ 256 then Inr (a + b) else Inl (Panic 17))"

definition checked_neg :: "int256 \<Rightarrow> error + int256" where
  "checked_neg a = (if sint a = - (2 ^ 255) then Inl (Panic 17) else Inr (- a))"

subsection \<open>Pool lifecycle and admin functions\<close>

text \<open>The modifier \<^verbatim>\<open>onlyPoolAdmin\<close>: the body runs only for the pool's admin.\<close>

definition onlyPoolAdmin :: "address \<Rightarrow> pool_id \<Rightarrow> hook_state \<Rightarrow> error + 'a \<Rightarrow> error + 'a" where
  "onlyPoolAdmin msg_sender poolId s body =
     (if msg_sender \<noteq> poolAdmin s poolId then Inl (Unauthorized msg_sender) else body)"

text \<open>
  Modelled from the spec: \<^verbatim>\<open>BaseOverrideFee._afterInitialize\<close> belongs to the inherited
  base hook, which is not part of the sources. It validates that the pool key asks for a
  dynamic fee (as the comment at the call says) and returns the hook's selector.
\<close>

definition super_afterInitialize :: "address \<Rightarrow> pool_key \<Rightarrow> 160 word \<Rightarrow> 24 word \<Rightarrow> error + selector" where
  "super_afterInitialize sender key sqrtPriceX96 tick =
     (if fee key \<noteq> DYNAMIC_FEE_FLAG then Inl NotDynamicFee else Inr AfterInitializeSelector)"

definition afterInitialize ::
  "(pool_key \<Rightarrow> pool_id) \<Rightarrow> address \<Rightarrow> pool_key \<Rightarrow> 160 word \<Rightarrow> 24 word \<Rightarrow> hook_state
    \<Rightarrow> error + (selector \<times> hook_state)" where
  "afterInitialize toId sender key sqrtPriceX96 tick s =
     (case super_afterInitialize sender key sqrtPriceX96 tick of
        Inl e \<Rightarrow> Inl e
      | Inr sel \<Rightarrow>
          (let poolId = toId key in
           if poolAdmin s poolId \<noteq> 0 then Inl (PoolAlreadyRegistered poolId)
           else Inr (sel, s\<lparr>poolAdmin := (poolAdmin s)(poolId := sender),
                            events := events s @ [PoolRegistered poolId sender]\<rparr>)))"

definition setPoolStrategy :: "address \<Rightarrow> pool_id \<Rightarrow> address \<Rightarrow> hook_state \<Rightarrow> error + hook_state" where
  "setPoolStrategy msg_sender poolId strategy s =
     onlyPoolAdmin msg_sender poolId s
       (Inr (s\<lparr>poolStrategy := (poolStrategy s)(poolId := strategy),
               events := events s @ [PoolStrategyUpdated poolId strategy]\<rparr>))"

definition setPoolFee :: "uint256 \<Rightarrow> address \<Rightarrow> pool_id \<Rightarrow> uint24 \<Rightarrow> hook_state \<Rightarrow> error + hook_state" where
  "setPoolFee block_number msg_sender poolId newFee s =
     onlyPoolAdmin msg_sender poolId s
       (if newFee > MAX_FEE then Inl (FeeTooHigh newFee)
        else case checked_add block_number TIMELOCK_BLOCKS of
               Inl e \<Rightarrow> Inl e
             | Inr readyBlock \<Rightarrow>
                 Inr (s\<lparr>pendingFee := (pendingFee s)(poolId := newFee),
                        feeReadyBlock := (feeReadyBlock s)(poolId := readyBlock),
                        events := events s @ [PoolFeeQueued poolId newFee readyBlock]\<rparr>))"

definition finalizePoolFee :: "uint256 \<Rightarrow> address \<Rightarrow> pool_id \<Rightarrow> hook_state \<Rightarrow> error + hook_state" where
  "finalizePoolFee block_number msg_sender poolId s =
     (let ready = feeReadyBlock s poolId in
      if ready = 0 \<or> block_number < ready then Inl (FeeChangeTimelocked poolId ready)
      else
        (let newFee = pendingFee s poolId in
         Inr (s\<lparr>poolFeeOverride := (poolFeeOverride s)(poolId := newFee),
                pendingFee := (pendingFee s)(poolId := 0),
                feeReadyBlock := (feeReadyBlock s)(poolId := 0),
                events := events s @ [PoolFeeUpdated poolId newFee]\<rparr>)))"

definition transferPoolAdmin :: "address \<Rightarrow> pool_id \<Rightarrow> address \<Rightarrow> hook_state \<Rightarrow> error + hook_state" where
  "transferPoolAdmin msg_sender poolId newAdmin s =
     onlyPoolAdmin msg_sender poolId s
       (if newAdmin = 0 then Inl ZeroAddress
        else Inr (s\<lparr>pendingPoolAdmin := (pendingPoolAdmin s)(poolId := newAdmin),
                    events := events s @ [PoolAdminTransferProposed poolId msg_sender newAdmin]\<rparr>))"

definition acceptPoolAdmin :: "address \<Rightarrow> pool_id \<Rightarrow> hook_state \<Rightarrow> error + hook_state" where
  "acceptPoolAdmin msg_sender poolId s =
     (let pending = pendingPoolAdmin s poolId in
      if pending = 0 then Inl (NoPendingAdmin poolId)
      else if msg_sender \<noteq> pending then Inl (NotPendingAdmin msg_sender)
      else
        (let previousAdmin = poolAdmin s poolId in
         Inr (s\<lparr>poolAdmin := (poolAdmin s)(poolId := pending),
                pendingPoolAdmin := (pendingPoolAdmin s)(poolId := 0),
                events := events s @ [PoolAdminTransferred poolId previousAdmin pending]\<rparr>)))"

subsection \<open>Fee resolution\<close>

text \<open>
  \<^verbatim>\<open>_resolveFee\<close>: strategy, then manual override, then \<open>DEFAULT_FEE\<close>. It is a
  \<^verbatim>\<open>view\<close> function; it reverts when the strategy's answer does not decode.
\<close>

definition resolveFee ::
  "strategies \<Rightarrow> hook_state \<Rightarrow> pool_id \<Rightarrow> pool_key \<Rightarrow> swap_params \<Rightarrow> error + uint24" where
  "resolveFee ext s poolId key params =
     (let strategy = poolStrategy s poolId;
          fall_through =
            (let overrideFee = poolFeeOverride s poolId in
             if overrideFee \<noteq> 0 then overrideFee else DEFAULT_FEE)
      in if strategy \<noteq> 0 then
           (case ext strategy poolId key params of
              Returned w \<Rightarrow>
                (case decode_uint24 w of
                   Inl e \<Rightarrow> Inl e
                 | Inr strategyFee \<Rightarrow>
                     Inr (if strategyFee > MAX_FEE then MAX_FEE else strategyFee))
            | ShortReturn \<Rightarrow> Inl AbiDecodeRevert
            | Failed \<Rightarrow> Inr fall_through)
         else Inr fall_through)"

definition getEffectiveFee ::
  "strategies \<Rightarrow> hook_state \<Rightarrow> pool_id \<Rightarrow> pool_key \<Rightarrow> swap_params \<Rightarrow> error + uint24" where
  "getEffectiveFee ext s poolId key params = resolveFee ext s poolId key params"

definition getPendingFeeInfo :: "uint256 \<Rightarrow> hook_state \<Rightarrow> pool_id \<Rightarrow> uint24 \<times> uint256 \<times> bool" where
  "getPendingFeeInfo block_number s poolId =
     (let readyBlock = feeReadyBlock s poolId in
      (pendingFee s poolId, readyBlock, readyBlock > 0 \<and> block_number \<ge> readyBlock))"

text \<open>\<^verbatim>\<open>_getFee\<close>, the fee the base hook asks for on the swap path.\<close>

definition getFee ::
  "(pool_key \<Rightarrow> pool_id) \<Rightarrow> strategies \<Rightarrow> hook_state \<Rightarrow> address \<Rightarrow> pool_key \<Rightarrow> swap_params \<Rightarrow> bytes
    \<Rightarrow> error + uint24" where
  "getFee toId ext s sender key params hookData =
     (let poolId = toId key in resolveFee ext s poolId key params)"

subsection \<open>Swap hooks\<close>

text \<open>
  Modelled from the spec: \<^verbatim>\<open>BaseOverrideFee._beforeSwap\<close> belongs to the inherited base
  hook, which is not part of the sources. It hands the engine the fee of \<^verbatim>\<open>_getFee\<close>,
  marked as an override of the pool's fee, with no balance delta; it writes no storage, and
  a revert of \<^verbatim>\<open>_getFee\<close> is its revert.
\<close>

definition super_beforeSwap ::
  "(pool_key \<Rightarrow> pool_id) \<Rightarrow> strategies \<Rightarrow> hook_state \<Rightarrow> address \<Rightarrow> pool_key \<Rightarrow> swap_params \<Rightarrow> bytes
    \<Rightarrow> error + (selector \<times> int256 \<times> uint24)" where
  "super_beforeSwap toId ext s sender key params hookData =
     (case getFee toId ext s sender key params hookData of
        Inl e \<Rightarrow> Inl e
      | Inr resolved \<Rightarrow> Inr (BeforeSwapSelector, 0, resolved OR OVERRIDE_FEE_FLAG))"

definition beforeSwap ::
  "(pool_key \<Rightarrow> pool_id) \<Rightarrow> strategies \<Rightarrow> address \<Rightarrow> pool_key \<Rightarrow> swap_params \<Rightarrow> bytes \<Rightarrow> hook_state
    \<Rightarrow> error + ((selector \<times> int256 \<times> uint24) \<times> hook_state)" where
  "beforeSwap toId ext sender key params hookData s =
     (case super_beforeSwap toId ext s sender key params hookData of
        Inl e \<Rightarrow> Inl e
      | Inr result \<Rightarrow>
          (let poolId = toId key in
           case (if sint (amountSpecified params) > 0 then Inr (amountSpecified params)
                 else checked_neg (amountSpecified params)) of
             Inl e \<Rightarrow> Inl e
           | Inr amountIn \<Rightarrow>
               (let s1 = s\<lparr>swapCount := (swapCount s)(poolId := swapCount s poolId + 1)\<rparr>;
                    s2 = s1\<lparr>events := events s1
                            @ [SwapProcessed poolId amountIn (swapCount s1 poolId)]\<rparr>
                in Inr (result, s2))))"

text \<open>The local \<^verbatim>\<open>volumeIn\<close> of \<^verbatim>\<open>_afterSwap\<close>: the positive side of the delta.\<close>

definition volumeIn :: "balance_delta \<Rightarrow> uint256" where
  "volumeIn swapDelta =
     (let a0 = amount0 swapDelta; a1 = amount1 swapDelta in
      if sint a0 > 0 then ucast a0
      else if sint a1 > 0 then ucast a1
      else 0)"

text \<open>
  Modelled from the spec: the engine, which is not part of the sources, reports a swap's
  settlement as a signed pair of amounts, and the side that is positive is the amount that
  flowed into the pool from the swapper (so the spec, and the comment at the computation
  of \<^verbatim>\<open>volumeIn\<close>); if neither side is positive, nothing flowed in.
\<close>

definition amount_into_pool :: "balance_delta \<Rightarrow> int" where
  "amount_into_pool swapDelta =
     (if 0 < sint (amount0 swapDelta) then \<bar>sint (amount0 swapDelta)\<bar>
      else if 0 < sint (amount1 swapDelta) then \<bar>sint (amount1 swapDelta)\<bar>
      else 0)"

definition afterSwap ::
  "(pool_key \<Rightarrow> pool_id) \<Rightarrow> address \<Rightarrow> pool_key \<Rightarrow> swap_params \<Rightarrow> balance_delta \<Rightarrow> bytes \<Rightarrow> hook_state
    \<Rightarrow> error + ((selector \<times> int128) \<times> hook_state)" where
  "afterSwap toId sender key params swapDelta hookData s =
     (let poolId = toId key;
          v = volumeIn swapDelta;
          s1 = s\<lparr>totalVolume := (totalVolume s)(poolId := totalVolume s poolId + v)\<rparr>;
          s2 = s1\<lparr>events := events s1 @ [VolumeUpdated poolId v (totalVolume s1 poolId)]\<rparr>
      in Inr ((AfterSwapSelector, 0), s2))"

subsection \<open>Transactions\<close>

text \<open>
  Every state-changing entry point of the contract, with its caller and arguments. A
  transaction runs one call in a block, against the contracts \<open>ext\<close> deployed at that
  moment. A call that reverts leaves the storage untouched. The three hooks are the
  internal functions of the contract; the base hook's external wrappers, which admit the
  pool manager only, are not part of the sources.
\<close>

datatype call =
    AfterInitialize address pool_key "160 word" "24 word"
  | SetPoolStrategy address pool_id address
  | SetPoolFee address pool_id uint24
  | FinalizePoolFee address pool_id
  | TransferPoolAdmin address pool_id address
  | AcceptPoolAdmin address pool_id
  | BeforeSwap address pool_key swap_params bytes
  | AfterSwap address pool_key swap_params balance_delta bytes

fun exec :: "(pool_key \<Rightarrow> pool_id) \<Rightarrow> strategies \<Rightarrow> uint256 \<Rightarrow> call \<Rightarrow> hook_state \<Rightarrow> error + hook_state" where
  "exec toId ext block_number (AfterInitialize sender key sqrtPriceX96 tick) s =
     map_sum id snd (afterInitialize toId sender key sqrtPriceX96 tick s)"
| "exec toId ext block_number (SetPoolStrategy msg_sender poolId strategy) s =
     setPoolStrategy msg_sender poolId strategy s"
| "exec toId ext block_number (SetPoolFee msg_sender poolId newFee) s =
     setPoolFee block_number msg_sender poolId newFee s"
| "exec toId ext block_number (FinalizePoolFee msg_sender poolId) s =
     finalizePoolFee block_number msg_sender poolId s"
| "exec toId ext block_number (TransferPoolAdmin msg_sender poolId newAdmin) s =
     transferPoolAdmin msg_sender poolId newAdmin s"
| "exec toId ext block_number (AcceptPoolAdmin msg_sender poolId) s =
     acceptPoolAdmin msg_sender poolId s"
| "exec toId ext block_number (BeforeSwap sender key params hookData) s =
     map_sum id snd (beforeSwap toId ext sender key params hookData s)"
| "exec toId ext block_number (AfterSwap sender key params swapDelta hookData) s =
     map_sum id snd (afterSwap toId sender key params swapDelta hookData s)"

type_synonym tx = "strategies \<times> uint256 \<times> call"

fun apply_tx :: "(pool_key \<Rightarrow> pool_id) \<Rightarrow> tx \<Rightarrow> hook_state \<Rightarrow> hook_state" where
  "apply_tx toId (ext, block_number, c) s =
     (case exec toId ext block_number c s of Inl e \<Rightarrow> s | Inr s' \<Rightarrow> s')"

fun run :: "(pool_key \<Rightarrow> pool_id) \<Rightarrow> tx list \<Rightarrow> hook_state \<Rightarrow> hook_state" where
  "run toId [] s = s"
| "run toId (t # ts) s = run toId ts (apply_tx toId t s)"

text \<open>The pool a call is about.\<close>

fun call_pool :: "(pool_key \<Rightarrow> pool_id) \<Rightarrow> call \<Rightarrow> pool_id" where
  "call_pool toId (AfterInitialize sender key sqrtPriceX96 tick) = toId key"
| "call_pool toId (SetPoolStrategy msg_sender poolId strategy) = poolId"
| "call_pool toId (SetPoolFee msg_sender poolId newFee) = poolId"
| "call_pool toId (FinalizePoolFee msg_sender poolId) = poolId"
| "call_pool toId (TransferPoolAdmin msg_sender poolId newAdmin) = poolId"
| "call_pool toId (AcceptPoolAdmin msg_sender poolId) = poolId"
| "call_pool toId (BeforeSwap sender key params hookData) = toId key"
| "call_pool toId (AfterSwap sender key params swapDelta hookData) = toId key"

subsection \<open>Sample inputs\<close>

text \<open>
  The pool key, swap parameters, principals and strategies of the contract's test suite
  (\<^verbatim>\<open>MaliciousFeeStrategy\<close> returns 999999, \<^verbatim>\<open>RevertingFeeStrategy\<close> always reverts),
  used to evaluate the model at concrete inputs. \<open>sample_toId\<close> stands for the hash of
  the engine in these evaluations only.
\<close>

definition sample_key :: pool_key where
  "sample_key = \<lparr>currency0 = 1, currency1 = 2, fee = DYNAMIC_FEE_FLAG, tickSpacing = 60, hooks = 0x10C0\<rparr>"

definition sample_params :: swap_params where
  "sample_params = \<lparr>zeroForOne = True, amountSpecified = 1000000000000000000, sqrtPriceLimitX96 = 0\<rparr>"

definition sample_toId :: "pool_key \<Rightarrow> pool_id" where
  "sample_toId key = ucast (currency0 key)"

definition sample_admin :: address where
  "sample_admin = 0xBEEF"

definition sample_newAdmin :: address where
  "sample_newAdmin = 0xFACE"

definition MaliciousFeeStrategy_getFee :: "pool_id \<Rightarrow> pool_key \<Rightarrow> swap_params \<Rightarrow> call_result" where
  "MaliciousFeeStrategy_getFee poolId key params = Returned 999999"

definition RevertingFeeStrategy_getFee :: "pool_id \<Rightarrow> pool_key \<Rightarrow> swap_params \<Rightarrow> call_result" where
  "RevertingFeeStrategy_getFee poolId key params = Failed"

text \<open>
  What a call to each address gives: the three strategies of the test suite, a contract at
  \<open>0xB16\<close> that answers the word \<open>2 ^ 24\<close>, and no code anywhere else. Then the states
  the test suite builds: a registered pool, the pool with a finalized override of 100, and
  the pool with the reverting or the malicious strategy attached; and the pool whose admin
  attached an address without code, or the contract at \<open>0xB16\<close>.
\<close>

definition sample_ext :: strategies where
  "sample_ext a =
     (if a = 0xBAD then MaliciousFeeStrategy_getFee
      else if a = 0xF1ED then FixedFeeStrategy_getFee 500
      else if a = 0xDEAD then RevertingFeeStrategy_getFee
      else if a = 0xB16 then (\<lambda>poolId key params. Returned (2 ^ 24))
      else (\<lambda>poolId key params. ShortReturn))"

definition registered_state :: hook_state where
  "registered_state =
     run sample_toId [(sample_ext, 1, AfterInitialize sample_admin sample_key 0 0)] init_state"

definition override_state :: hook_state where
  "override_state = run sample_toId
     [(sample_ext, 1, SetPoolFee sample_admin 1 100),
      (sample_ext, 151, FinalizePoolFee 0xD00D 1)] registered_state"

definition reverting_state :: hook_state where
  "reverting_state =
     run sample_toId [(sample_ext, 152, SetPoolStrategy sample_admin 1 0xDEAD)] override_state"

definition malicious_state :: hook_state where
  "malicious_state =
     run sample_toId [(sample_ext, 2, SetPoolStrategy sample_admin 1 0xBAD)] registered_state"

definition no_code_state :: hook_state where
  "no_code_state =
     run sample_toId [(sample_ext, 153, SetPoolStrategy sample_admin 1 0xE0A)] override_state"

definition wide_answer_state :: hook_state where
  "wide_answer_state =
     run sample_toId [(sample_ext, 153, SetPoolStrategy sample_admin 1 0xB16)] override_state"

definition queued_state :: hook_state where
  "queued_state =
     run sample_toId [(sample_ext, 1, SetPoolFee sample_admin 1 100)] registered_state"

definition proposed_state :: hook_state where
  "proposed_state =
     run sample_toId [(sample_ext, 2, TransferPoolAdmin sample_admin 1 sample_newAdmin)]
       registered_state"

definition accepted_state :: hook_state where
  "accepted_state =
     run sample_toId [(sample_ext, 3, AcceptPoolAdmin sample_newAdmin 1)] proposed_state"

text \<open>
  The registered pool with both counters at the largest \<^verbatim>\<open>uint256\<close>, a swap whose
  \<^verbatim>\<open>amountSpecified\<close> is the smallest \<^verbatim>\<open>int256\<close>, and three settlement deltas.
  Then a post-swap that settles the largest positive \<^verbatim>\<open>int128\<close>, and the pool after
  \<open>2 ^ 129 + 4\<close> of them.
\<close>

definition full_counters_state :: hook_state where
  "full_counters_state = registered_state\<lparr>swapCount := (swapCount registered_state)(1 := - 1),
      totalVolume := (totalVolume registered_state)(1 := - 1)\<rparr>"

definition min_amount_params :: swap_params where
  "min_amount_params = \<lparr>zeroForOne = True, amountSpecified = 2 ^ 255, sqrtPriceLimitX96 = 0\<rparr>"

definition delta_in0 :: balance_delta where
  "delta_in0 = \<lparr>amount0 = 1, amount1 = - 1\<rparr>"

definition delta_in1 :: balance_delta where
  "delta_in1 = \<lparr>amount0 = - 5, amount1 = 7\<rparr>"

definition delta_none :: balance_delta where
  "delta_none = \<lparr>amount0 = 0, amount1 = - 3\<rparr>"

definition delta_big :: balance_delta where
  "delta_big = \<lparr>amount0 = 2 ^ 127 - 1, amount1 = - 1\<rparr>"

definition big_swap :: tx where
  "big_swap = (sample_ext, 5, AfterSwap 0 sample_key sample_params delta_big [])"

definition many_swaps :: nat where
  "many_swaps = 2 ^ 129 + 4"

definition busy_state :: hook_state where
  "busy_state = run sample_toId (replicate many_swaps big_swap) registered_state"

section \<open>Verified properties\<close>

lemmas sample_defs = sample_ext_def registered_state_def override_state_def reverting_state_def
  malicious_state_def no_code_state_def wide_answer_state_def
  queued_state_def proposed_state_def accepted_state_def
  full_counters_state_def min_amount_params_def delta_in0_def delta_in1_def delta_none_def
  sample_toId_def sample_key_def sample_params_def sample_admin_def
  sample_newAdmin_def MaliciousFeeStrategy_getFee_def RevertingFeeStrategy_getFee_def
  FixedFeeStrategy_getFee_def init_state_def

lemmas hook_defs = afterInitialize_def super_afterInitialize_def setPoolStrategy_def
  setPoolFee_def finalizePoolFee_def transferPoolAdmin_def acceptPoolAdmin_def onlyPoolAdmin_def
  checked_add_def MAX_FEE_def DEFAULT_FEE_def TIMELOCK_BLOCKS_def DYNAMIC_FEE_FLAG_def

subsection \<open>Stored fees stay below the ceiling\<close>







subsection \<open>Fee resolution\<close>

lemma resolveFee_decodable:
  assumes "poolStrategy s poolId \<noteq> 0"
    and "ext (poolStrategy s poolId) poolId key params = Returned w" and "unat w < 2 ^ 24"
  shows "resolveFee ext s poolId key params = Inr (min (ucast w) MAX_FEE)"
  using assms by (auto simp: resolveFee_def decode_uint24_def Let_def min_def not_less)

lemma resolveFee_fall_through:
  assumes "poolStrategy s poolId = 0 \<or> ext (poolStrategy s poolId) poolId key params = Failed"
  shows "resolveFee ext s poolId key params
     = Inr (if poolFeeOverride s poolId \<noteq> 0 then poolFeeOverride s poolId else DEFAULT_FEE)"
  using assms by (auto simp: resolveFee_def Let_def)

lemma resolveFee_undecodable:
  assumes "poolStrategy s poolId \<noteq> 0"
    and "ext (poolStrategy s poolId) poolId key params = ShortReturn
      \<or> (\<exists>w. ext (poolStrategy s poolId) poolId key params = Returned w \<and> 2 ^ 24 \<le> unat w)"
  shows "resolveFee ext s poolId key params = Inl AbiDecodeRevert"
  using assms by (auto simp: resolveFee_def decode_uint24_def Let_def)

lemma ucast_999999: "(ucast (999999 :: 256 word) :: uint24) = 999999"
  by simp



text \<open>
  The priority chain holds for a strategy that keeps to its interface: an attached strategy
  that answers a \<^verbatim>\<open>uint24\<close> \<open>w\<close> gives \<open>w\<close> clamped to \<open>MAX_FEE\<close>; with no strategy, or
  one whose call fails, the fee is \<open>poolFeeOverride\<close> when that is not 0 and
  \<open>DEFAULT_FEE = 3000\<close> otherwise.
\<close>

lemma priority_chain:
  "(poolStrategy s poolId \<noteq> 0 \<and> ext (poolStrategy s poolId) poolId key params = Returned w
      \<and> unat w < 2 ^ 24
      \<longrightarrow> getEffectiveFee ext s poolId key params = Inr (min (ucast w) MAX_FEE))
   \<and> ((poolStrategy s poolId = 0 \<or> ext (poolStrategy s poolId) poolId key params = Failed)
        \<and> poolFeeOverride s poolId \<noteq> 0
      \<longrightarrow> getEffectiveFee ext s poolId key params = Inr (poolFeeOverride s poolId))
   \<and> ((poolStrategy s poolId = 0 \<or> ext (poolStrategy s poolId) poolId key params = Failed)
        \<and> poolFeeOverride s poolId = 0
      \<longrightarrow> getEffectiveFee ext s poolId key params = Inr DEFAULT_FEE \<and> unat DEFAULT_FEE = 3000)"
  using resolveFee_decodable [of s poolId ext key params w]
    resolveFee_fall_through [of s poolId ext key params]
  by (auto simp: getEffectiveFee_def DEFAULT_FEE_def)

lemma priority_chain_samples:
  "getEffectiveFee sample_ext malicious_state 1 sample_key sample_params = Inr 10000
   \<and> getEffectiveFee sample_ext reverting_state 1 sample_key sample_params = Inr 100
   \<and> getEffectiveFee sample_ext override_state 1 sample_key sample_params = Inr 100
   \<and> getEffectiveFee sample_ext registered_state 1 sample_key sample_params = Inr 3000"
  by (simp add: getEffectiveFee_def resolveFee_def decode_uint24_def sample_defs hook_defs)

text \<open>
  C2 fails on the code. When the attached strategy's call succeeds but its answer does not
  decode as a \<^verbatim>\<open>uint24\<close> (fewer than 32 bytes, as from an address without code, or a
  word of \<open>2 ^ 24\<close> or more), \<^verbatim>\<open>getEffectiveFee\<close> reverts: it neither clamps the answer
  nor falls through to the override or the default, and \<^verbatim>\<open>_beforeSwap\<close> reverts with it,
  leaving the swap counter as it was.
\<close>

theorem undecodable_answer_reverts:
  "poolStrategy s poolId \<noteq> 0
   \<and> (ext (poolStrategy s poolId) poolId key params = ShortReturn
       \<or> (\<exists>w. ext (poolStrategy s poolId) poolId key params = Returned w \<and> 2 ^ 24 \<le> unat w))
   \<longrightarrow> getEffectiveFee ext s poolId key params = Inl AbiDecodeRevert"
  using resolveFee_undecodable [of s poolId ext key params]
  by (simp add: getEffectiveFee_def)

theorem undecodable_answer_reverts_witness:
  "poolStrategy no_code_state 1 \<noteq> 0
   \<and> sample_ext (poolStrategy no_code_state 1) 1 sample_key sample_params = ShortReturn
   \<and> poolFeeOverride no_code_state 1 = 100
   \<and> getEffectiveFee sample_ext no_code_state 1 sample_key sample_params = Inl AbiDecodeRevert
   \<and> poolStrategy wide_answer_state 1 \<noteq> 0
   \<and> sample_ext (poolStrategy wide_answer_state 1) 1 sample_key sample_params = Returned (2 ^ 24)
   \<and> getEffectiveFee sample_ext wide_answer_state 1 sample_key sample_params = Inl AbiDecodeRevert"
proof -
  have a: "poolStrategy no_code_state 1 \<noteq> 0"
    "sample_ext (poolStrategy no_code_state 1) 1 sample_key sample_params = ShortReturn"
    "poolFeeOverride no_code_state 1 = 100"
    "poolStrategy wide_answer_state 1 \<noteq> 0"
    "sample_ext (poolStrategy wide_answer_state 1) 1 sample_key sample_params = Returned (2 ^ 24)"
    by (simp_all add: sample_defs hook_defs)
  have b: "(2 :: nat) ^ 24 \<le> unat (2 ^ 24 :: 256 word)"
    by simp
  from undecodable_answer_reverts [of no_code_state 1 sample_ext sample_key sample_params]
    undecodable_answer_reverts [of wide_answer_state 1 sample_ext sample_key sample_params]
    a b
  show ?thesis by auto
qed

subsection \<open>The timelocked fee queue\<close>

lemma checked_add_Inr:
  "checked_add a b = Inr r \<Longrightarrow> r = a + b \<and> unat r = unat a + unat b"
  by (auto simp: checked_add_def unat_add_lem [THEN iffD1] split: if_splits)

lemma setPoolFee_Inr:
  assumes "setPoolFee T a poolId v s = Inr s'"
  shows "a = poolAdmin s poolId" and "v \<le> MAX_FEE"
    and "pendingFee s' poolId = v" and "feeReadyBlock s' poolId = T + 150"
    and "unat (T + 150) = unat T + 150"
  using assms
  by (auto simp: setPoolFee_def onlyPoolAdmin_def TIMELOCK_BLOCKS_def not_less
      split: if_splits sum.splits dest!: checked_add_Inr)

lemma setPoolFee_accepts:
  assumes "a = poolAdmin s poolId" and "v \<le> MAX_FEE" and "unat T + 150 < 2 ^ 256"
  shows "\<exists>s'. setPoolFee T a poolId v s = Inr s'"
  using assms
  by (simp add: setPoolFee_def onlyPoolAdmin_def checked_add_def TIMELOCK_BLOCKS_def not_less)

lemma finalizePoolFee_early:
  assumes "feeReadyBlock s poolId = r" and "r = 0 \<or> unat b < unat r"
  shows "finalizePoolFee b c poolId s = Inl (FeeChangeTimelocked poolId r)"
  using assms by (auto simp: finalizePoolFee_def Let_def word_less_nat_alt)

lemma finalizePoolFee_ready:
  assumes "feeReadyBlock s poolId = r" and "r \<noteq> 0" and "unat r \<le> unat b"
  shows "\<exists>s'. finalizePoolFee b c poolId s = Inr s'
     \<and> poolFeeOverride s' poolId = pendingFee s poolId
     \<and> pendingFee s' poolId = 0 \<and> feeReadyBlock s' poolId = 0"
  using assms by (auto simp: finalizePoolFee_def Let_def word_less_nat_alt)

text \<open>
  C3. Let the admin's \<^verbatim>\<open>setPoolFee\<close> of a value \<open>v\<close> succeed in block \<open>T\<close>: then
  \<open>v \<le> MAX_FEE\<close>, and \<^verbatim>\<open>finalizePoolFee\<close> by any caller in any block before
  \<open>T + 150\<close> reverts with \<open>FeeChangeTimelocked\<close> and leaves the storage as it was; in any
  block from \<open>T + 150\<close> on it succeeds, sets the override to \<open>v\<close> and clears
  \<open>pendingFee\<close> and \<open>feeReadyBlock\<close>. The queue call does succeed for the admin and a
  value up to \<open>MAX_FEE\<close> (while block numbers stay below \<open>2 ^ 256 - 150\<close>). With nothing
  queued (\<open>feeReadyBlock = 0\<close>) \<^verbatim>\<open>finalizePoolFee\<close> reverts with \<open>FeeChangeTimelocked\<close>.
\<close>

theorem timelock_enforced:
  "(setPoolFee T a poolId v s = Inr s' \<longrightarrow>
      v \<le> MAX_FEE \<and> pendingFee s' poolId = v \<and> unat (feeReadyBlock s' poolId) = unat T + 150
      \<and> (\<forall>b c. unat b < unat T + 150 \<longrightarrow>
            finalizePoolFee b c poolId s' = Inl (FeeChangeTimelocked poolId (T + 150))
            \<and> apply_tx toId (ext, b, FinalizePoolFee c poolId) s' = s')
      \<and> (\<forall>b c. unat T + 150 \<le> unat b \<longrightarrow>
            (\<exists>s''. finalizePoolFee b c poolId s' = Inr s'' \<and> poolFeeOverride s'' poolId = v
                \<and> pendingFee s'' poolId = 0 \<and> feeReadyBlock s'' poolId = 0)))
   \<and> (a = poolAdmin s poolId \<and> v \<le> MAX_FEE \<and> unat T + 150 < 2 ^ 256 \<longrightarrow>
        (\<exists>s1. setPoolFee T a poolId v s = Inr s1))
   \<and> (feeReadyBlock s0 poolId = 0 \<longrightarrow>
        finalizePoolFee b0 c0 poolId s0 = Inl (FeeChangeTimelocked poolId 0)
        \<and> apply_tx toId (ext, b0, FinalizePoolFee c0 poolId) s0 = s0)"
proof -
  have queued: "v \<le> MAX_FEE \<and> pendingFee s' poolId = v
      \<and> unat (feeReadyBlock s' poolId) = unat T + 150
      \<and> (\<forall>b c. unat b < unat T + 150 \<longrightarrow>
            finalizePoolFee b c poolId s' = Inl (FeeChangeTimelocked poolId (T + 150))
            \<and> apply_tx toId (ext, b, FinalizePoolFee c poolId) s' = s')
      \<and> (\<forall>b c. unat T + 150 \<le> unat b \<longrightarrow>
            (\<exists>s''. finalizePoolFee b c poolId s' = Inr s'' \<and> poolFeeOverride s'' poolId = v
                \<and> pendingFee s'' poolId = 0 \<and> feeReadyBlock s'' poolId = 0))"
    if q0: "setPoolFee T a poolId v s = Inr s'"
  proof -
    note q = setPoolFee_Inr [OF q0]
    have nz: "T + 150 \<noteq> 0"
      using q(5) by auto
    have early: "finalizePoolFee b c poolId s' = Inl (FeeChangeTimelocked poolId (T + 150))"
      if "unat b < unat T + 150" for b c
      using finalizePoolFee_early [OF q(4), of b c] that q(5) by simp
    have ready: "\<exists>s''. finalizePoolFee b c poolId s' = Inr s'' \<and> poolFeeOverride s'' poolId = v
                \<and> pendingFee s'' poolId = 0 \<and> feeReadyBlock s'' poolId = 0"
      if "unat T + 150 \<le> unat b" for b c
      using finalizePoolFee_ready [OF q(4) nz, of b c] that q(5) q(3) by auto
    show ?thesis
      using q(2,3,4,5) early ready by simp
  qed
  have none: "finalizePoolFee b0 c0 poolId s0 = Inl (FeeChangeTimelocked poolId 0)"
    if "feeReadyBlock s0 poolId = 0"
    using finalizePoolFee_early [OF that, of b0 c0] by simp
  from queued none setPoolFee_accepts [of a s poolId v T] show ?thesis
    by simp
qed

theorem timelock_enforced_witness:
  "setPoolFee 1 sample_admin 1 100 registered_state = Inr queued_state
   \<and> finalizePoolFee 150 0xD00D 1 queued_state = Inl (FeeChangeTimelocked 1 151)
   \<and> (\<exists>s''. finalizePoolFee 151 0xD00D 1 queued_state = Inr s'' \<and> poolFeeOverride s'' 1 = 100
         \<and> pendingFee s'' 1 = 0 \<and> feeReadyBlock s'' 1 = 0)
   \<and> feeReadyBlock registered_state 1 = 0
   \<and> finalizePoolFee 151 0xD00D 1 registered_state = Inl (FeeChangeTimelocked 1 0)"
proof -
  have q: "setPoolFee 1 sample_admin 1 100 registered_state = Inr queued_state"
    by (simp add: sample_defs hook_defs)
  have z: "feeReadyBlock registered_state 1 = 0"
    by (simp add: sample_defs hook_defs)
  from timelock_enforced [of 1 sample_admin 1 100 registered_state queued_state sample_toId
      sample_ext registered_state 151 "0xD00D"] z q
  show ?thesis
    by (auto elim!: allE [of _ "150"] allE [of _ "151"])
qed

text \<open>
  C10. The admin's \<^verbatim>\<open>setPoolFee\<close> of the value 0 is accepted, and finalizing it once the
  timelock has passed sets the override to 0: with no strategy attached,
  \<^verbatim>\<open>getEffectiveFee\<close> then answers \<open>DEFAULT_FEE\<close>, whatever the override was before.
\<close>

theorem zero_fee_cancels_override:
  assumes "a = poolAdmin s poolId" and "unat T + 150 < 2 ^ 256"
  shows "\<exists>s1. setPoolFee T a poolId 0 s = Inr s1
     \<and> (\<forall>b c. unat T + 150 \<le> unat b \<longrightarrow>
          (\<exists>s2. finalizePoolFee b c poolId s1 = Inr s2 \<and> poolFeeOverride s2 poolId = 0
             \<and> (poolStrategy s poolId = 0 \<longrightarrow>
                  getEffectiveFee ext s2 poolId key params = Inr DEFAULT_FEE)))"
proof -
  have u: "unat (T + 150) = unat T + 150"
    using assms(2) by (simp add: unat_add_lem [THEN iffD1])
  then have nz: "T + 150 \<noteq> 0"
    by auto
  show ?thesis
    using assms u nz
    by (auto simp: setPoolFee_def onlyPoolAdmin_def checked_add_def TIMELOCK_BLOCKS_def MAX_FEE_def
        finalizePoolFee_def Let_def word_less_nat_alt getEffectiveFee_def resolveFee_def)
qed

theorem zero_fee_cancels_override_witness:
  "sample_admin = poolAdmin override_state 1 \<and> unat (152 :: uint256) + 150 < 2 ^ 256
   \<and> poolStrategy override_state 1 = 0
   \<and> getEffectiveFee sample_ext override_state 1 sample_key sample_params = Inr 100
   \<and> (\<exists>s1 s2. setPoolFee 152 sample_admin 1 0 override_state = Inr s1
         \<and> finalizePoolFee 302 0xD00D 1 s1 = Inr s2 \<and> poolFeeOverride s2 1 = 0
         \<and> getEffectiveFee sample_ext s2 1 sample_key sample_params = Inr 3000)"
proof -
  have a: "sample_admin = poolAdmin override_state 1"
    and c: "poolStrategy override_state 1 = 0"
    and d: "getEffectiveFee sample_ext override_state 1 sample_key sample_params = Inr 100"
    by (simp_all add: sample_defs hook_defs getEffectiveFee_def resolveFee_def)
  have b: "unat (152 :: uint256) + 150 < 2 ^ 256"
    by simp
  have e: "unat (152 :: uint256) + 150 \<le> unat (302 :: uint256)"
    by simp
  from zero_fee_cancels_override [OF a b, of sample_ext sample_key sample_params]
  obtain s1 where s1: "setPoolFee 152 sample_admin 1 0 override_state = Inr s1"
    and fin: "\<forall>b c. unat (152 :: uint256) + 150 \<le> unat b \<longrightarrow>
          (\<exists>s2. finalizePoolFee b c 1 s1 = Inr s2 \<and> poolFeeOverride s2 1 = 0
             \<and> (poolStrategy override_state 1 = 0 \<longrightarrow>
                  getEffectiveFee sample_ext s2 1 sample_key sample_params = Inr DEFAULT_FEE))"
    by blast
  from fin e c obtain s2 where "finalizePoolFee 302 0xD00D 1 s1 = Inr s2"
     "poolFeeOverride s2 1 = 0"
     "getEffectiveFee sample_ext s2 1 sample_key sample_params = Inr DEFAULT_FEE"
    by blast
  with s1 a b c d show ?thesis
    by (auto simp: DEFAULT_FEE_def)
qed

subsection \<open>Pool admin: registration and two-step transfer\<close>

text \<open>
  C6. Let \<open>A\<close> be the pool's admin and \<open>B\<close> a non-zero address. \<open>A\<close>'s proposal of
  \<open>B\<close> succeeds; after it, \<^verbatim>\<open>acceptPoolAdmin\<close> by any caller other than \<open>B\<close> reverts
  with \<open>NotPendingAdmin\<close> and changes nothing, and by \<open>B\<close> it succeeds, makes \<open>B\<close> the
  admin and clears \<open>pendingPoolAdmin\<close>. From then on each of the three admin-only
  functions reverts with \<open>Unauthorized\<close> when the former admin \<open>A\<close> (a principal other
  than \<open>B\<close>) calls it.
\<close>

theorem two_step_transfer:
  assumes "poolAdmin s poolId = A" and "B \<noteq> 0"
  shows "\<exists>s1. transferPoolAdmin A poolId B s = Inr s1
     \<and> (\<forall>c. c \<noteq> B \<longrightarrow> acceptPoolAdmin c poolId s1 = Inl (NotPendingAdmin c)
              \<and> apply_tx toId (ext, bn, AcceptPoolAdmin c poolId) s1 = s1)
     \<and> (\<exists>s2. acceptPoolAdmin B poolId s1 = Inr s2 \<and> poolAdmin s2 poolId = B
           \<and> pendingPoolAdmin s2 poolId = 0
           \<and> (A \<noteq> B \<longrightarrow>
                (\<forall>strategy. setPoolStrategy A poolId strategy s2 = Inl (Unauthorized A))
                \<and> (\<forall>b v. setPoolFee b A poolId v s2 = Inl (Unauthorized A))
                \<and> (\<forall>n. transferPoolAdmin A poolId n s2 = Inl (Unauthorized A))))"
  using assms
  by (auto simp: transferPoolAdmin_def acceptPoolAdmin_def setPoolStrategy_def setPoolFee_def
      onlyPoolAdmin_def Let_def)

theorem two_step_transfer_witness:
  "poolAdmin registered_state 1 = sample_admin \<and> sample_newAdmin \<noteq> 0
   \<and> sample_admin \<noteq> sample_newAdmin
   \<and> transferPoolAdmin sample_admin 1 sample_newAdmin registered_state = Inr proposed_state
   \<and> acceptPoolAdmin 0xDEAD 1 proposed_state = Inl (NotPendingAdmin 0xDEAD)
   \<and> acceptPoolAdmin sample_newAdmin 1 proposed_state = Inr accepted_state
   \<and> poolAdmin accepted_state 1 = sample_newAdmin \<and> pendingPoolAdmin accepted_state 1 = 0
   \<and> setPoolFee 4 sample_admin 1 100 accepted_state = Inl (Unauthorized sample_admin)"
proof -
  have a: "poolAdmin registered_state 1 = sample_admin"
    by (simp add: sample_defs hook_defs)
  have b: "sample_newAdmin \<noteq> 0" and d: "sample_admin \<noteq> sample_newAdmin"
    by (simp_all add: sample_defs)
  have p: "transferPoolAdmin sample_admin 1 sample_newAdmin registered_state = Inr proposed_state"
    by (simp add: sample_defs hook_defs)
  have e: "(0xDEAD :: address) \<noteq> sample_newAdmin"
    by (simp add: sample_defs)
  have acc: "acceptPoolAdmin sample_newAdmin 1 proposed_state = Inr accepted_state"
    by (simp add: sample_defs hook_defs)
  from two_step_transfer [OF a b, of sample_toId sample_ext 3] a b d p e acc show ?thesis
    by auto
qed

lemma exec_admin:
  assumes "exec toId ext bn c s = Inr s'" and "poolAdmin s p \<noteq> 0"
  shows "poolAdmin s' p \<noteq> 0"
  using assms
  by (cases c)
     (auto simp: afterInitialize_def setPoolStrategy_def setPoolFee_def finalizePoolFee_def
        transferPoolAdmin_def acceptPoolAdmin_def beforeSwap_def afterSwap_def onlyPoolAdmin_def
        Let_def split: if_splits sum.splits)

lemma apply_tx_admin:
  assumes "poolAdmin s p \<noteq> 0"
  shows "poolAdmin (apply_tx toId t s) p \<noteq> 0"
proof (cases t)
  case (fields ext bn c)
  show ?thesis
  proof (cases "exec toId ext bn c s")
    case (Inl e)
    with fields assms show ?thesis by simp
  next
    case (Inr s')
    from exec_admin [OF Inr assms] fields Inr show ?thesis by simp
  qed
qed

lemma run_admin: "poolAdmin s p \<noteq> 0 \<Longrightarrow> poolAdmin (run toId txs s) p \<noteq> 0"
  by (induction txs arbitrary: s) (simp_all add: apply_tx_admin)

text \<open>
  C7. \<^verbatim>\<open>_afterInitialize\<close>, for a pool key that passes the base hook's validation: if
  the pool has no admin yet, it succeeds and makes the initiator \<open>sender\<close> the admin; with
  a principal (a non-zero address) as initiator, every second registration of the pool
  reverts with \<open>PoolAlreadyRegistered\<close> and leaves the storage as it was, as does any
  registration of a pool that has an admin. An admin that is set stays non-zero under every
  sequence of transactions.
\<close>

theorem registration:
  "(fee key = DYNAMIC_FEE_FLAG \<and> poolAdmin s (toId key) = 0 \<longrightarrow>
      (\<exists>s'. afterInitialize toId sender key sqrtPriceX96 tick s = Inr (AfterInitializeSelector, s')
         \<and> poolAdmin s' (toId key) = sender
         \<and> (sender \<noteq> 0 \<longrightarrow>
              (\<forall>sender2 sqrtPrice2 tick2.
                 afterInitialize toId sender2 key sqrtPrice2 tick2 s'
                   = Inl (PoolAlreadyRegistered (toId key))
                 \<and> apply_tx toId (ext, bn, AfterInitialize sender2 key sqrtPrice2 tick2) s' = s'))))
   \<and> (fee key = DYNAMIC_FEE_FLAG \<and> poolAdmin s (toId key) \<noteq> 0 \<longrightarrow>
        afterInitialize toId sender key sqrtPriceX96 tick s = Inl (PoolAlreadyRegistered (toId key))
        \<and> apply_tx toId (ext, bn, AfterInitialize sender key sqrtPriceX96 tick) s = s)
   \<and> (poolAdmin s p \<noteq> 0 \<longrightarrow> poolAdmin (run toId txs s) p \<noteq> 0)"
  using run_admin [of s p toId txs]
  by (auto simp: afterInitialize_def super_afterInitialize_def Let_def)

theorem registration_witness:
  "fee sample_key = DYNAMIC_FEE_FLAG \<and> poolAdmin init_state (sample_toId sample_key) = 0
   \<and> afterInitialize sample_toId sample_admin sample_key 0 0 init_state
       = Inr (AfterInitializeSelector, registered_state)
   \<and> poolAdmin registered_state 1 = sample_admin \<and> sample_admin \<noteq> 0
   \<and> afterInitialize sample_toId 0xAAAA sample_key 0 0 registered_state
       = Inl (PoolAlreadyRegistered 1)
   \<and> poolAdmin (run sample_toId
        [(sample_ext, 2, TransferPoolAdmin sample_admin 1 sample_newAdmin),
         (sample_ext, 3, AcceptPoolAdmin sample_newAdmin 1),
         (sample_ext, 4, AfterInitialize 0 sample_key 0 0)] registered_state) 1 \<noteq> 0"
proof -
  have a: "fee sample_key = DYNAMIC_FEE_FLAG" "poolAdmin init_state (sample_toId sample_key) = 0"
      "sample_admin \<noteq> 0" "sample_toId sample_key = 1"
    by (simp_all add: sample_defs)
  have r: "afterInitialize sample_toId sample_admin sample_key 0 0 init_state
       = Inr (AfterInitializeSelector, registered_state)"
    by (simp add: sample_defs hook_defs)
  have b: "poolAdmin registered_state 1 = sample_admin"
    by (simp add: sample_defs hook_defs)
  from registration [of sample_key init_state sample_toId sample_admin 0 0 sample_ext 4]
    registration [of sample_key registered_state sample_toId "0xAAAA" 0 0 sample_ext 4 1
      "[(sample_ext, 2, TransferPoolAdmin sample_admin 1 sample_newAdmin),
         (sample_ext, 3, AcceptPoolAdmin sample_newAdmin 1),
         (sample_ext, 4, AfterInitialize 0 sample_key 0 0)]"]
    a r b
  show ?thesis by auto
qed

subsection \<open>Pool independence\<close>

lemma exec_frame:
  assumes "exec toId ext bn c s = Inr s'" and "call_pool toId c \<noteq> p2"
  shows "poolAdmin s' p2 = poolAdmin s p2 \<and> pendingPoolAdmin s' p2 = pendingPoolAdmin s p2
    \<and> poolStrategy s' p2 = poolStrategy s p2 \<and> poolFeeOverride s' p2 = poolFeeOverride s p2
    \<and> pendingFee s' p2 = pendingFee s p2 \<and> feeReadyBlock s' p2 = feeReadyBlock s p2
    \<and> swapCount s' p2 = swapCount s p2 \<and> totalVolume s' p2 = totalVolume s p2"
  using assms
  by (cases c)
     (auto simp: afterInitialize_def setPoolStrategy_def setPoolFee_def finalizePoolFee_def
        transferPoolAdmin_def acceptPoolAdmin_def beforeSwap_def afterSwap_def onlyPoolAdmin_def
        Let_def split: if_splits sum.splits)

text \<open>
  C9. A transaction with any call on pool \<open>p1\<close> (registration, strategy set, fee queue or
  finalize, admin transfer or accept, pre-swap, post-swap), whether it succeeds or reverts,
  leaves all eight fields of every other pool \<open>p2\<close> as they were.
\<close>

theorem pool_independence:
  assumes "call_pool toId c \<noteq> p2"
  shows "poolAdmin (apply_tx toId (ext, bn, c) s) p2 = poolAdmin s p2
    \<and> pendingPoolAdmin (apply_tx toId (ext, bn, c) s) p2 = pendingPoolAdmin s p2
    \<and> poolStrategy (apply_tx toId (ext, bn, c) s) p2 = poolStrategy s p2
    \<and> poolFeeOverride (apply_tx toId (ext, bn, c) s) p2 = poolFeeOverride s p2
    \<and> pendingFee (apply_tx toId (ext, bn, c) s) p2 = pendingFee s p2
    \<and> feeReadyBlock (apply_tx toId (ext, bn, c) s) p2 = feeReadyBlock s p2
    \<and> swapCount (apply_tx toId (ext, bn, c) s) p2 = swapCount s p2
    \<and> totalVolume (apply_tx toId (ext, bn, c) s) p2 = totalVolume s p2"
proof (cases "exec toId ext bn c s")
  case (Inl e)
  then show ?thesis by simp
next
  case (Inr s')
  from exec_frame [OF Inr assms] Inr show ?thesis by simp
qed

theorem pool_independence_witness:
  "call_pool sample_toId (SetPoolFee sample_admin 1 100) \<noteq> 2
   \<and> pendingFee (apply_tx sample_toId (sample_ext, 1, SetPoolFee sample_admin 1 100)
        registered_state) 1 = 100
   \<and> pendingFee (apply_tx sample_toId (sample_ext, 1, SetPoolFee sample_admin 1 100)
        registered_state) 2 = pendingFee registered_state 2
   \<and> feeReadyBlock (apply_tx sample_toId (sample_ext, 1, SetPoolFee sample_admin 1 100)
        registered_state) 2 = feeReadyBlock registered_state 2"
proof -
  have a: "call_pool sample_toId (SetPoolFee sample_admin 1 100) \<noteq> 2"
    by simp
  have b: "pendingFee (apply_tx sample_toId (sample_ext, 1, SetPoolFee sample_admin 1 100)
        registered_state) 1 = 100"
    by (simp add: sample_defs hook_defs)
  from pool_independence [OF a, of sample_ext 1 registered_state] a b show ?thesis
    by simp
qed

subsection \<open>Swap analytics\<close>

lemma beforeSwap_Inr:
  assumes "sint (amountSpecified params) \<noteq> - (2 ^ 255)"
    and "getFee toId ext s sender key params hookData = Inr f"
  shows "\<exists>s'. beforeSwap toId ext sender key params hookData s
            = Inr ((BeforeSwapSelector, 0, f OR OVERRIDE_FEE_FLAG), s')
     \<and> swapCount s' (toId key) = swapCount s (toId key) + 1"
  using assms by (simp add: beforeSwap_def super_beforeSwap_def checked_neg_def Let_def)

lemma beforeSwap_fee_reverts:
  assumes "getFee toId ext s sender key params hookData = Inl e"
  shows "beforeSwap toId ext sender key params hookData s = Inl e"
  using assms by (simp add: beforeSwap_def super_beforeSwap_def)

lemma afterSwap_Inr:
  "\<exists>s'. afterSwap toId sender key params swapDelta hookData s = Inr ((AfterSwapSelector, 0), s')
     \<and> totalVolume s' (toId key) = totalVolume s (toId key) + volumeIn swapDelta"
  by (auto simp: afterSwap_def Let_def)

lemma unat_max_uint256: "unat (- 1 :: uint256) = 2 ^ 256 - 1"
  by (simp add: unsigned_minus_1_eq_mask mask_eq_exp_minus_1)

lemma sint_pos_128: "0 < sint (a :: int128) \<Longrightarrow> uint (ucast a :: uint256) = sint a"
proof -
  assume pos: "0 < sint a"
  have s: "sint a = signed_take_bit 127 (uint a)"
    by (simp add: sint_uint)
  have lt: "uint a < 2 ^ 128"
    using uint_bounded [of a] by simp
  have small: "uint a < 2 ^ 127"
  proof (rule ccontr)
    assume "\<not> uint a < 2 ^ 127"
    then have "2 ^ 127 \<le> uint a" by simp
    from signed_take_bit_int_less_eq [OF this]
    have "signed_take_bit 127 (uint a) \<le> uint a - 2 ^ 128"
      by simp
    with s lt pos show False by simp
  qed
  have "signed_take_bit 127 (uint a) = uint a"
  proof (rule signed_take_bit_int_eq_self)
    have "- (2 ^ 127) \<le> (0 :: int)" by simp
    also have "0 \<le> uint a" by simp
    finally show "- (2 ^ 127) \<le> uint a" .
    show "uint a < 2 ^ 127" by (fact small)
  qed
  moreover have "uint (ucast a :: uint256) = uint a"
    by (simp add: uint_up_ucast is_up)
  ultimately show ?thesis using s by simp
qed

text \<open>
  C4, as the contract has it. Whenever \<^verbatim>\<open>_beforeSwap\<close> gets through its fee resolution
  and its \<^verbatim>\<open>amountSpecified\<close> is not the smallest \<^verbatim>\<open>int256\<close>, it returns and adds 1
  to the pool's \<open>swapCount\<close>; \<^verbatim>\<open>_afterSwap\<close> always returns and adds \<open>volumeIn\<close> to
  \<open>totalVolume\<close>. Both additions are \<^verbatim>\<open>unchecked\<close>, that is modulo \<open>2 ^ 256\<close>: neither
  reverts, and a \<open>swapCount\<close> at the largest value goes back to 0.
\<close>

theorem counters_wrap:
  "(sint (amountSpecified params) \<noteq> - (2 ^ 255)
      \<and> getFee toId ext s sender key params hookData = Inr f \<longrightarrow>
      (\<exists>r s'. beforeSwap toId ext sender key params hookData s = Inr (r, s')
         \<and> unat (swapCount s' (toId key)) = (unat (swapCount s (toId key)) + 1) mod 2 ^ 256
         \<and> (unat (swapCount s (toId key)) = 2 ^ 256 - 1 \<longrightarrow> swapCount s' (toId key) = 0)))
   \<and> (\<exists>r s'. afterSwap toId sender key params' swapDelta hookData s = Inr (r, s')
         \<and> unat (totalVolume s' (toId key))
             = (unat (totalVolume s (toId key)) + unat (volumeIn swapDelta)) mod 2 ^ 256)"
proof -
  have pre: "\<exists>r s'. beforeSwap toId ext sender key params hookData s = Inr (r, s')
         \<and> unat (swapCount s' (toId key)) = (unat (swapCount s (toId key)) + 1) mod 2 ^ 256
         \<and> (unat (swapCount s (toId key)) = 2 ^ 256 - 1 \<longrightarrow> swapCount s' (toId key) = 0)"
    if ok: "sint (amountSpecified params) \<noteq> - (2 ^ 255)"
      and resolved: "getFee toId ext s sender key params hookData = Inr f"
  proof -
    from beforeSwap_Inr [OF ok resolved]
    obtain s' where b: "beforeSwap toId ext sender key params hookData s
          = Inr ((BeforeSwapSelector, 0, f OR OVERRIDE_FEE_FLAG), s')"
      and c: "swapCount s' (toId key) = swapCount s (toId key) + 1"
      by blast
    have m: "unat (swapCount s' (toId key)) = (unat (swapCount s (toId key)) + 1) mod 2 ^ 256"
      using c by (simp add: unat_word_ariths)
    have z: "swapCount s' (toId key) = 0" if "unat (swapCount s (toId key)) = 2 ^ 256 - 1"
    proof -
      from m that have "unat (swapCount s' (toId key)) = 0" by simp
      then show ?thesis by (simp add: unat_eq_0)
    qed
    from b m z show ?thesis by blast
  qed
  have post: "\<exists>r s'. afterSwap toId sender key params' swapDelta hookData s = Inr (r, s')
         \<and> unat (totalVolume s' (toId key))
             = (unat (totalVolume s (toId key)) + unat (volumeIn swapDelta)) mod 2 ^ 256"
    using afterSwap_Inr [of toId sender key params' swapDelta hookData s]
    by (auto simp: unat_word_ariths)
  from pre post show ?thesis by blast
qed

theorem counters_wrap_witness:
  "sint (amountSpecified sample_params) \<noteq> - (2 ^ 255)
   \<and> getFee sample_toId sample_ext full_counters_state 0 sample_key sample_params [] = Inr 3000
   \<and> unat (swapCount full_counters_state (sample_toId sample_key)) = 2 ^ 256 - 1
   \<and> (\<exists>r s'. beforeSwap sample_toId sample_ext 0 sample_key sample_params [] full_counters_state
                = Inr (r, s')
         \<and> swapCount s' (sample_toId sample_key) = 0)"
proof -
  have a: "sint (amountSpecified sample_params) \<noteq> - (2 ^ 255)"
    by (simp add: sample_defs)
  have g: "getFee sample_toId sample_ext full_counters_state 0 sample_key sample_params []
      = Inr 3000"
    by (simp add: getFee_def resolveFee_def sample_defs hook_defs)
  have b: "unat (swapCount full_counters_state (sample_toId sample_key)) = 2 ^ 256 - 1"
    by (simp add: sample_defs hook_defs unat_max_uint256)
  from counters_wrap [of sample_params sample_toId sample_ext full_counters_state 0 sample_key
      "[]" 3000 sample_params delta_in0] a g b
  show ?thesis by blast
qed

theorem swapCount_wraps_counterexample:
  "unat (swapCount full_counters_state 1) = 2 ^ 256 - 1
   \<and> swapCount (apply_tx sample_toId (sample_ext, 5, BeforeSwap 0 sample_key sample_params [])
        full_counters_state) 1 = 0"
  by (simp add: beforeSwap_def super_beforeSwap_def getFee_def resolveFee_def checked_neg_def
      sample_defs hook_defs unat_max_uint256)

text \<open>
  C5 fails on the code: \<^verbatim>\<open>_beforeSwap\<close> negates a non-positive \<^verbatim>\<open>amountSpecified\<close>
  in checked arithmetic, outside the \<^verbatim>\<open>unchecked\<close> block, so for the smallest
  \<^verbatim>\<open>int256\<close> the hook reverts, for every pool, state and strategy: with \<open>Panic(0x11)\<close>
  when its fee resolution returned, and with that revert when the fee resolution reverted.
\<close>

theorem beforeSwap_min_amount_panics:
  "beforeSwap toId ext sender key (params\<lparr>amountSpecified := 2 ^ 255\<rparr>) hookData s
     = Inl (case getFee toId ext s sender key (params\<lparr>amountSpecified := 2 ^ 255\<rparr>) hookData of
              Inl e \<Rightarrow> e
            | Inr resolved \<Rightarrow> Panic 17)"
  by (simp add: beforeSwap_def super_beforeSwap_def checked_neg_def split: sum.splits)

text \<open>
  On the registered pool of the test suite the revert is the panic. \<^verbatim>\<open>_beforeSwap\<close>
  reverts exactly for that amount and for a fee resolution that reverts (an attached
  strategy whose answer does not decode); it then leaves the swap counter as it was.
  \<^verbatim>\<open>_afterSwap\<close> returns for every settlement delta.
\<close>

lemma beforeSwap_sample_min:
  "sint (amountSpecified min_amount_params) = - (2 ^ 255)
   \<and> beforeSwap sample_toId sample_ext 0 sample_key min_amount_params [] registered_state
       = Inl (Panic 17)"
  by (simp add: beforeSwap_def super_beforeSwap_def getFee_def resolveFee_def checked_neg_def
      sample_defs hook_defs)

lemma beforeSwap_fails_iff:
  "(\<exists>e. beforeSwap toId ext sender key params hookData s = Inl e)
     \<longleftrightarrow> sint (amountSpecified params) = - (2 ^ 255)
         \<or> (\<exists>e. getFee toId ext s sender key params hookData = Inl e)"
  by (auto simp: beforeSwap_def super_beforeSwap_def checked_neg_def Let_def split: sum.splits)

lemma beforeSwap_undecodable_sample:
  "beforeSwap sample_toId sample_ext 0 sample_key sample_params [] no_code_state
     = Inl AbiDecodeRevert
   \<and> swapCount (apply_tx sample_toId (sample_ext, 200, BeforeSwap 0 sample_key sample_params [])
        no_code_state) 1 = swapCount no_code_state 1"
  by (simp add: beforeSwap_def super_beforeSwap_def getFee_def resolveFee_def
      sample_defs hook_defs)

lemma afterSwap_never_fails:
  "afterSwap toId sender key params swapDelta hookData s \<noteq> Inl e"
  by (simp add: afterSwap_def Let_def)

lemma apply_tx_afterSwap:
  "totalVolume (apply_tx toId (ext, bn, AfterSwap sender key params d hookData) s) (toId key)
     = totalVolume s (toId key) + volumeIn d"
  by (simp add: afterSwap_def Let_def)

lemma run_replicate_afterSwap:
  "totalVolume (run toId (replicate n (ext, bn, AfterSwap sender key params d hookData)) s) (toId key)
     = totalVolume s (toId key) + of_nat n * volumeIn d"
proof (induction n arbitrary: s)
  case 0
  show ?case by simp
next
  case (Suc n)
  have "totalVolume (run toId (replicate (Suc n) (ext, bn, AfterSwap sender key params d hookData)) s)
          (toId key)
      = totalVolume (apply_tx toId (ext, bn, AfterSwap sender key params d hookData) s) (toId key)
          + of_nat n * volumeIn d"
    using Suc.IH [of "apply_tx toId (ext, bn, AfterSwap sender key params d hookData) s"]
    by (simp del: apply_tx.simps)
  also have "\<dots> = totalVolume s (toId key) + of_nat (Suc n) * volumeIn d"
    by (simp only: apply_tx_afterSwap of_nat_Suc) (simp add: algebra_simps)
  finally show ?case .
qed

lemma volumeIn_delta_big: "volumeIn delta_big = 2 ^ 127 - 1"
  by (simp add: volumeIn_def delta_big_def)

lemma totalVolume_busy_state: "totalVolume busy_state 1 = - 4"
proof -
  have k: "sample_toId sample_key = 1"
    by (simp add: sample_toId_def sample_key_def)
  have z: "totalVolume registered_state 1 = 0"
    by (simp add: sample_defs hook_defs)
  have "totalVolume busy_state (sample_toId sample_key)
      = totalVolume registered_state (sample_toId sample_key)
          + of_nat many_swaps * volumeIn delta_big"
    unfolding busy_state_def big_swap_def by (rule run_replicate_afterSwap)
  then show ?thesis
    by (simp add: k z volumeIn_delta_big many_swaps_def)
qed

text \<open>
  C8, as the contract has it. \<open>volumeIn\<close> is the magnitude of the positive side of the
  settlement delta (\<open>amount0\<close> if it is positive, else \<open>amount1\<close> if that is positive),
  which is the amount that flowed into the pool, and 0 if neither side is positive.
  \<^verbatim>\<open>_afterSwap\<close> always returns, and \<open>totalVolume\<close> becomes its old value plus
  \<open>volumeIn\<close> modulo \<open>2 ^ 256\<close>: an increase by exactly \<open>volumeIn\<close> whenever the sum is
  below \<open>2 ^ 256\<close>.
\<close>

theorem volume_accumulates:
  "uint (volumeIn d) = amount_into_pool d
   \<and> (0 < sint (amount0 d) \<longrightarrow> uint (volumeIn d) = \<bar>sint (amount0 d)\<bar>)
   \<and> (sint (amount0 d) \<le> 0 \<and> 0 < sint (amount1 d) \<longrightarrow> uint (volumeIn d) = \<bar>sint (amount1 d)\<bar>)
   \<and> (sint (amount0 d) \<le> 0 \<and> sint (amount1 d) \<le> 0 \<longrightarrow> volumeIn d = 0)
   \<and> (\<exists>r s'. afterSwap toId sender key params d hookData s = Inr (r, s')
         \<and> unat (totalVolume s' (toId key))
             = (unat (totalVolume s (toId key)) + unat (volumeIn d)) mod 2 ^ 256
         \<and> (unat (totalVolume s (toId key)) + unat (volumeIn d) < 2 ^ 256 \<longrightarrow>
              unat (totalVolume s' (toId key))
                = unat (totalVolume s (toId key)) + unat (volumeIn d)))"
proof -
  have a: "0 < sint (amount0 d) \<Longrightarrow> uint (volumeIn d) = \<bar>sint (amount0 d)\<bar>"
    by (simp add: volumeIn_def sint_pos_128)
  have b: "sint (amount0 d) \<le> 0 \<Longrightarrow> 0 < sint (amount1 d)
      \<Longrightarrow> uint (volumeIn d) = \<bar>sint (amount1 d)\<bar>"
    by (simp add: volumeIn_def sint_pos_128)
  have c: "sint (amount0 d) \<le> 0 \<Longrightarrow> sint (amount1 d) \<le> 0 \<Longrightarrow> volumeIn d = 0"
    by (simp add: volumeIn_def)
  have into: "uint (volumeIn d) = amount_into_pool d"
    using a b c by (cases "0 < sint (amount0 d)"; cases "0 < sint (amount1 d)")
      (simp_all add: amount_into_pool_def)
  from afterSwap_Inr [of toId sender key params d hookData s]
  obtain s' where r: "afterSwap toId sender key params d hookData s
        = Inr ((AfterSwapSelector, 0), s')"
    and t: "totalVolume s' (toId key) = totalVolume s (toId key) + volumeIn d"
    by blast
  have m: "unat (totalVolume s' (toId key))
             = (unat (totalVolume s (toId key)) + unat (volumeIn d)) mod 2 ^ 256"
    using t by (simp add: unat_word_ariths)
  have e: "unat (totalVolume s' (toId key)) = unat (totalVolume s (toId key)) + unat (volumeIn d)"
    if "unat (totalVolume s (toId key)) + unat (volumeIn d) < 2 ^ 256"
    using m that by simp
  from into a b c r m e show ?thesis by blast
qed

theorem volume_accumulates_witness:
  "0 < sint (amount0 delta_in0) \<and> uint (volumeIn delta_in0) = 1
   \<and> sint (amount0 delta_in1) \<le> 0 \<and> 0 < sint (amount1 delta_in1) \<and> uint (volumeIn delta_in1) = 7
   \<and> amount_into_pool delta_in1 = 7
   \<and> sint (amount0 delta_none) \<le> 0 \<and> sint (amount1 delta_none) \<le> 0 \<and> volumeIn delta_none = 0
   \<and> unat (totalVolume registered_state (sample_toId sample_key)) + unat (volumeIn delta_in1) < 2 ^ 256
   \<and> (\<exists>r s'. afterSwap sample_toId 0 sample_key sample_params delta_in1 [] registered_state
                = Inr (r, s')
         \<and> unat (totalVolume s' (sample_toId sample_key)) = 7)"
proof -
  have a: "0 < sint (amount0 delta_in0)" "\<bar>sint (amount0 delta_in0)\<bar> = 1"
    by (simp_all add: delta_in0_def)
  have b: "sint (amount0 delta_in1) \<le> 0" "0 < sint (amount1 delta_in1)"
      "\<bar>sint (amount1 delta_in1)\<bar> = 7"
    by (simp_all add: delta_in1_def)
  have c: "sint (amount0 delta_none) \<le> 0" "sint (amount1 delta_none) \<le> 0"
    by (simp_all add: delta_none_def)
  have v: "unat (volumeIn delta_in1) = 7"
    by (simp add: volumeIn_def delta_in1_def)
  have t: "unat (totalVolume registered_state (sample_toId sample_key)) = 0"
    by (simp add: sample_defs hook_defs)
  from volume_accumulates [of delta_in0 sample_toId 0 sample_key sample_params "[]" registered_state]
    volume_accumulates [of delta_none sample_toId 0 sample_key sample_params "[]" registered_state]
    volume_accumulates [of delta_in1 sample_toId 0 sample_key sample_params "[]" registered_state]
    a b c v t
  show ?thesis by auto
qed

theorem totalVolume_wraps_counterexample:
  "busy_state = run sample_toId (replicate (2 ^ 129 + 4) big_swap) registered_state
   \<and> unat (totalVolume busy_state 1) = 2 ^ 256 - 4
   \<and> unat (volumeIn delta_big) = 2 ^ 127 - 1
   \<and> unat (totalVolume (apply_tx sample_toId big_swap busy_state) 1) = 2 ^ 127 - 5"
proof -
  have k: "sample_toId sample_key = 1"
    by (simp add: sample_toId_def sample_key_def)
  have after: "totalVolume (apply_tx sample_toId big_swap busy_state) 1
      = totalVolume busy_state 1 + volumeIn delta_big"
    using apply_tx_afterSwap [of sample_toId sample_ext 5 0 sample_key sample_params delta_big
        "[]" busy_state]
    by (simp only: k big_swap_def)
  have d: "busy_state = run sample_toId (replicate (2 ^ 129 + 4) big_swap) registered_state"
    by (simp only: busy_state_def many_swaps_def)
  have u1: "unat (totalVolume busy_state 1) = 2 ^ 256 - 4"
    by (simp add: totalVolume_busy_state)
  have u2: "unat (volumeIn delta_big) = 2 ^ 127 - 1"
    by (simp add: volumeIn_delta_big)
  have u3: "unat (totalVolume (apply_tx sample_toId big_swap busy_state) 1) = 2 ^ 127 - 5"
    by (simp only: after totalVolume_busy_state volumeIn_delta_big) simp
  show ?thesis
    by (rule conjI [OF d conjI [OF u1 conjI [OF u2 u3]]])
qed

end
